theory Spec2Isabelle
  imports Main
begin

section \<open>Data model of \<^verbatim>\<open>openhands/utils/prompt.py\<close>\<close>

text \<open>
  Python strings are \<^typ>\<open>string\<close> (each \<^typ>\<open>char\<close> read as a code point below 256),
  Python integers are \<^typ>\<open>int\<close>, a \<^verbatim>\<open>dict\<close> is an association list in insertion order
  with distinct keys, and every exception the module can raise is a value of \<open>error\<close>.
  Objects are modelled by value: a message is identified with its position in the list
  that holds it, so two entries of one list are never the same object.
\<close>

datatype error =
    ValueError string
  | FileNotFoundError string
  | IsADirectoryError string
  | AssertionError
  | LoaderError string

text \<open>A content block of a message: \<^verbatim>\<open>TextContent(text=...)\<close> or an image block;
  \<open>is_TextContent c\<close> is \<^verbatim>\<open>isinstance(c, TextContent)\<close>.\<close>

datatype content =
    is_TextContent: TextContent (content_text: string)
  | ImageContent (image_urls: "string list")

datatype role = User | Assistant | System | Tool

record message =
  role :: role
  content :: "content list"

text \<open>The two counters of the conversation state that the module reads.\<close>

record state =
  max_iterations :: int
  iteration :: int

text \<open>
  The microagent classes are told apart by \<^verbatim>\<open>isinstance\<close>; the class of an entity is its
  \<open>kind\<close>. \<open>agent_content\<close> is the attribute \<^verbatim>\<open>microagent.content\<close>, and \<open>triggers\<close> the
  keywords a knowledge microagent was declared with.
\<close>

datatype agent_kind = KnowledgeMicroAgent | RepoMicroAgent | OtherMicroAgent

record microagent =
  name :: string
  agent_content :: string
  kind :: agent_kind
  triggers :: "string list"

record RuntimeInfo =
  available_hosts :: "(string \<times> int) list"

record RepositoryInfo =
  repo_name :: "string option"
  repo_directory :: "string option"

type_synonym template = string

type_synonym 'v dict = "(string \<times> 'v) list"

record PromptManager =
  disabled_microagents :: "string list"
  prompt_dir :: "string option"
  repository_info :: "RepositoryInfo option"
  system_template :: template
  user_template :: template
  additional_info_template :: template
  microagent_info_template :: template
  runtime_info :: RuntimeInfo
  knowledge_microagents :: "microagent dict"
  repo_microagents :: "microagent dict"

subsection \<open>Python primitives used by the module\<close>

text \<open>\<^verbatim>\<open>d[k] = v\<close>: an existing key keeps its position, a new key goes last.\<close>

fun dict_set :: "'v dict \<Rightarrow> string \<Rightarrow> 'v \<Rightarrow> 'v dict" where
  "dict_set [] k v = [(k, v)]"
| "dict_set ((k', v') # d) k v =
     (if k' = k then (k, v) # d else (k', v') # dict_set d k v)"

text \<open>\<^verbatim>\<open>str(n)\<close> for an integer: decimal digits, with a minus sign below zero.\<close>

definition digit_char :: "nat \<Rightarrow> char" where
  "digit_char d = ''0123456789'' ! d"

function str_nat :: "nat \<Rightarrow> string" where
  "str_nat n = (if n < 10 then [digit_char n] else str_nat (n div 10) @ [digit_char (n mod 10)])"
  by pat_completeness auto
termination
  by (relation "measure id") auto

declare str_nat.simps [simp del]

definition str_int :: "int \<Rightarrow> string" where
  "str_int i = (if i < 0 then CHR ''-'' # str_nat (nat (- i)) else str_nat (nat i))"

text \<open>\<^verbatim>\<open>str.strip()\<close>: whitespace is removed from both ends.\<close>

definition isspace :: "char \<Rightarrow> bool" where
  "isspace c = (of_char c \<in> {9, 10, 11, 12, 13, 28, 29, 30, 31, 32, 133, 160 :: nat})"

definition lstrip :: "string \<Rightarrow> string" where
  "lstrip s = dropWhile isspace s"

definition rstrip :: "string \<Rightarrow> string" where
  "rstrip s = rev (dropWhile isspace (rev s))"

definition strip :: "string \<Rightarrow> string" where
  "strip s = rstrip (lstrip s)"

section \<open>\<^verbatim>\<open>add_turns_left_reminder\<close>\<close>

text \<open>
  The generator of the source,
  \<^verbatim>\<open>(m for m in reversed(messages) if m.role == 'user' and any(isinstance(c, TextContent) for c in m.content))\<close>,
  yields message objects; here each object comes with its index in \<open>messages\<close>.
\<close>

definition is_user_text_message :: "message \<Rightarrow> bool" where
  "is_user_text_message m = (role m = User \<and> list_ex is_TextContent (content m))"

definition user_text_messages :: "message list \<Rightarrow> (nat \<times> message) list" where
  "user_text_messages messages =
     filter (\<lambda>(i, m). is_user_text_message m)
       (rev (enumerate 0 messages))"

text \<open>\<^verbatim>\<open>islice(it, n)\<close> with one bound: the first \<open>n\<close> items of \<open>it\<close>.\<close>

definition islice :: "'a list \<Rightarrow> nat \<Rightarrow> 'a list" where
  "islice it n = take n it"

text \<open>\<^verbatim>\<open>next(it, None)\<close>: the first item, or \<open>None\<close> when the iterator is exhausted.\<close>

definition next_or_None :: "'a list \<Rightarrow> 'a option" where
  "next_or_None it = (case it of [] \<Rightarrow> None | x # _ \<Rightarrow> Some x)"

definition reminder_text :: "state \<Rightarrow> string" where
  "reminder_text st =
     [CHR 0x0A, CHR 0x0A] @ ''ENVIRONMENT REMINDER: You have '' @
     str_int (max_iterations st - iteration st) @
     '' turns left to complete the task. When finished reply with <finish></finish>.''"

definition add_turns_left_reminder :: "message list \<Rightarrow> state \<Rightarrow> message list" where
  "add_turns_left_reminder messages st =
     (case next_or_None (islice (user_text_messages messages) 1) of
        None \<Rightarrow> messages
      | Some (i, latest_user_message) \<Rightarrow>
          messages[i := latest_user_message
            \<lparr>content := content latest_user_message @ [TextContent (reminder_text st)]\<rparr>])"

section \<open>External collaborators\<close>

text \<open>
  The template engine, the microagent loader and the trigger matching of a knowledge
  microagent live outside this module. They are parameters of the model: every theorem
  below holds for each choice of them.
  \<^item> \<open>render\<close> is \<^verbatim>\<open>Template(text).render(**variables)\<close>, a pure function of the
    template text and the variables;
  \<^item> \<open>load_microagents_from_dir\<close> returns the repo, knowledge and other microagents of a
    directory (each a \<^verbatim>\<open>dict\<close>), or raises;
  \<^item> \<open>match_trigger\<close> is \<^verbatim>\<open>microagent.match_trigger(text)\<close>: the matched keyword or
    \<open>None\<close>.
\<close>

datatype render_args =
    NoVars
  | AdditionalInfoVars string "RepositoryInfo option" RuntimeInfo
  | TriggeredAgentsVars "(microagent \<times> string) list"

record engine =
  render :: "template \<Rightarrow> render_args \<Rightarrow> string"
  load_microagents_from_dir ::
    "string \<Rightarrow> error + (microagent dict \<times> microagent dict \<times> microagent dict)"
  match_trigger :: "microagent \<Rightarrow> string \<Rightarrow> string option"

text \<open>
  The file system as the constructor sees it: a path is absent, a directory, or a text
  file with its contents.
\<close>

datatype fs_node = File string | Directory

type_synonym filesystem = "string \<Rightarrow> fs_node option"

text \<open>\<^verbatim>\<open>os.path.join(a, b)\<close> on a POSIX system.\<close>

definition path_join :: "string \<Rightarrow> string \<Rightarrow> string" where
  "path_join a b =
     (if b \<noteq> [] \<and> hd b = CHR ''/'' then b
      else if a = [] \<or> last a = CHR ''/'' then a @ b
      else a @ ''/'' @ b)"

section \<open>Construction and registration\<close>

text \<open>
  \<^verbatim>\<open>_load_template\<close>: \<^verbatim>\<open>os.path.exists\<close> holds of files and directories; opening a
  directory raises.
\<close>

definition load_template :: "filesystem \<Rightarrow> string option \<Rightarrow> string \<Rightarrow> error + template" where
  "load_template fs pdir template_name =
     (case pdir of
        None \<Rightarrow> Inl (ValueError ''Prompt directory is not set'')
      | Some d \<Rightarrow>
          (let template_path = path_join d (template_name @ ''.j2'') in
           case fs template_path of
             None \<Rightarrow> Inl (FileNotFoundError (''Prompt file '' @ template_path @ '' not found''))
           | Some Directory \<Rightarrow> Inl (IsADirectoryError template_path)
           | Some (File txt) \<Rightarrow> Inr txt))"

text \<open>
  The loops \<^verbatim>\<open>for name, microagent in d.items(): if name not in self.disabled_microagents: reg[name] = microagent\<close>
  of the constructor; \<open>key\<close> is the \<^verbatim>\<open>name\<close> of the source, the key of the loaded \<^verbatim>\<open>dict\<close>.
\<close>

fun register_items :: "string list \<Rightarrow> microagent dict \<Rightarrow> microagent dict \<Rightarrow> microagent dict" where
  "register_items disabled reg [] = reg"
| "register_items disabled reg ((key, microagent) # items) =
     (if key \<notin> set disabled
      then register_items disabled (dict_set reg key microagent) items
      else register_items disabled reg items)"

definition load_from_dir :: "engine \<Rightarrow> PromptManager \<Rightarrow> string \<Rightarrow> error + PromptManager" where
  "load_from_dir eng pm microagent_dir =
     (case load_microagents_from_dir eng microagent_dir of
        Inl e \<Rightarrow> Inl e
      | Inr (repo_ms, knowledge_ms, other_ms) \<Rightarrow>
          if \<not> list_all (\<lambda>(n, microagent). kind microagent = KnowledgeMicroAgent) knowledge_ms
          then Inl AssertionError
          else
            (let pm1 = pm\<lparr>knowledge_microagents :=
                        register_items (disabled_microagents pm) (knowledge_microagents pm) knowledge_ms\<rparr>
             in if \<not> list_all (\<lambda>(n, microagent). kind microagent = RepoMicroAgent) repo_ms
                then Inl AssertionError
                else Inr (pm1\<lparr>repo_microagents :=
                        register_items (disabled_microagents pm1) (repo_microagents pm1) repo_ms\<rparr>)))"

text \<open>
  \<^verbatim>\<open>PromptManager.__init__(prompt_dir, microagent_dir, disabled_microagents)\<close>. The four
  templates are loaded in the order of the source; the first failure is the exception of
  the constructor.
\<close>

definition PromptManager_init ::
  "engine \<Rightarrow> filesystem \<Rightarrow> string option \<Rightarrow> string option \<Rightarrow> string list option
     \<Rightarrow> error + PromptManager" where
  "PromptManager_init eng fs pdir microagent_dir disabled =
     (case load_template fs pdir ''system_prompt'' of Inl e \<Rightarrow> Inl e | Inr st \<Rightarrow>
     (case load_template fs pdir ''user_prompt'' of Inl e \<Rightarrow> Inl e | Inr ut \<Rightarrow>
     (case load_template fs pdir ''additional_info'' of Inl e \<Rightarrow> Inl e | Inr ait \<Rightarrow>
     (case load_template fs pdir ''microagent_info'' of Inl e \<Rightarrow> Inl e | Inr mit \<Rightarrow>
        (let pm = \<lparr>disabled_microagents = (case disabled of None \<Rightarrow> [] | Some l \<Rightarrow> l),
                   prompt_dir = pdir,
                   repository_info = None,
                   system_template = st,
                   user_template = ut,
                   additional_info_template = ait,
                   microagent_info_template = mit,
                   runtime_info = \<lparr>available_hosts = []\<rparr>,
                   knowledge_microagents = [],
                   repo_microagents = []\<rparr>
         in (case microagent_dir of
               None \<Rightarrow> Inr pm
             | Some d \<Rightarrow> if d = [] then Inr pm else load_from_dir eng pm d))))))"

fun load_microagents :: "PromptManager \<Rightarrow> microagent list \<Rightarrow> PromptManager" where
  "load_microagents pm [] = pm"
| "load_microagents pm (microagent # microagents) =
     (if name microagent \<in> set (disabled_microagents pm)
      then load_microagents pm microagents
      else if kind microagent = KnowledgeMicroAgent
      then load_microagents
             (pm\<lparr>knowledge_microagents :=
                   dict_set (knowledge_microagents pm) (name microagent) microagent\<rparr>) microagents
      else if kind microagent = RepoMicroAgent
      then load_microagents
             (pm\<lparr>repo_microagents :=
                   dict_set (repo_microagents pm) (name microagent) microagent\<rparr>) microagents
      else load_microagents pm microagents)"

definition set_runtime_info :: "PromptManager \<Rightarrow> (string \<times> int) list \<Rightarrow> PromptManager" where
  "set_runtime_info pm web_hosts =
     pm\<lparr>runtime_info := (runtime_info pm)\<lparr>available_hosts := web_hosts\<rparr>\<rparr>"

definition set_repository_info :: "PromptManager \<Rightarrow> string \<Rightarrow> string \<Rightarrow> PromptManager" where
  "set_repository_info pm rname rdir =
     pm\<lparr>repository_info := Some \<lparr>repo_name = Some rname, repo_directory = Some rdir\<rparr>\<rparr>"

section \<open>Rendering and message composition\<close>

text \<open>
  A method that reads the manager returns its result together with the manager after the
  call, so that the absence of mutation is a statement about the model.
\<close>

definition get_system_message :: "engine \<Rightarrow> PromptManager \<Rightarrow> string \<times> PromptManager" where
  "get_system_message eng pm = (strip (render eng (system_template pm) NoVars), pm)"

definition get_example_user_message :: "engine \<Rightarrow> PromptManager \<Rightarrow> string \<times> PromptManager" where
  "get_example_user_message eng pm = (strip (render eng (user_template pm) NoVars), pm)"

definition build_microagent_info ::
  "engine \<Rightarrow> PromptManager \<Rightarrow> (microagent \<times> string) list \<Rightarrow> string" where
  "build_microagent_info eng pm triggered_agents =
     strip (render eng (microagent_info_template pm) (TriggeredAgentsVars triggered_agents))"

text \<open>
  The loop \<^verbatim>\<open>for content in reversed(message.content)\<close> of \<^verbatim>\<open>enhance_message\<close>, run on
  the reversed list: the text of the first text block met, or the initial \<^verbatim>\<open>''\<close>.
\<close>

fun first_text :: "content list \<Rightarrow> string" where
  "first_text [] = []"
| "first_text (TextContent t # cs) = t"
| "first_text (ImageContent u # cs) = first_text cs"

text \<open>
  The loop over \<^verbatim>\<open>self.knowledge_microagents.items()\<close>; \<open>acc\<close> is the list
  \<^verbatim>\<open>triggered_agents\<close> built so far. \<^verbatim>\<open>if trigger:\<close> fails for \<open>None\<close> and for the empty
  string.
\<close>

fun collect_triggered ::
  "engine \<Rightarrow> string \<Rightarrow> microagent dict \<Rightarrow> (microagent \<times> string) list
     \<Rightarrow> (microagent \<times> string) list" where
  "collect_triggered eng message_content [] acc = acc"
| "collect_triggered eng message_content ((key, microagent) # items) acc =
     (case match_trigger eng microagent message_content of
        None \<Rightarrow> collect_triggered eng message_content items acc
      | Some trigger \<Rightarrow>
          if trigger \<noteq> []
          then collect_triggered eng message_content items (acc @ [(microagent, trigger)])
          else collect_triggered eng message_content items acc)"

definition enhance_message :: "engine \<Rightarrow> PromptManager \<Rightarrow> message \<Rightarrow> message" where
  "enhance_message eng pm message =
     (if content message = [] then message
      else
        (let message_content = first_text (rev (content message)) in
         if message_content = [] then message
         else
           (let triggered_agents =
                  collect_triggered eng message_content (knowledge_microagents pm) []
            in if triggered_agents \<noteq> []
               then message\<lparr>content :=
                      TextContent (build_microagent_info eng pm triggered_agents) # content message\<rparr>
               else message)))"

definition add_examples_to_initial_message :: "engine \<Rightarrow> PromptManager \<Rightarrow> message \<Rightarrow> message" where
  "add_examples_to_initial_message eng pm message =
     (let example_message = fst (get_example_user_message eng pm) in
      if example_message \<noteq> []
      then message\<lparr>content := TextContent example_message # content message\<rparr>
      else message)"

text \<open>The loop over \<^verbatim>\<open>self.repo_microagents.values()\<close> that builds \<^verbatim>\<open>repo_instructions\<close>.\<close>

fun join_instructions :: "string \<Rightarrow> microagent dict \<Rightarrow> string" where
  "join_instructions repo_instructions [] = repo_instructions"
| "join_instructions repo_instructions ((key, microagent) # items) =
     join_instructions
       ((if repo_instructions \<noteq> [] then repo_instructions @ [CHR 0x0A, CHR 0x0A]
         else repo_instructions) @ agent_content microagent) items"

definition add_info_to_initial_message ::
  "engine \<Rightarrow> PromptManager \<Rightarrow> message \<Rightarrow> error + message" where
  "add_info_to_initial_message eng pm message =
     (if \<not> length (repo_microagents pm) \<le> 1 then Inl AssertionError
      else
        (let repo_instructions = join_instructions [] (repo_microagents pm);
             additional_info =
               strip (render eng (additional_info_template pm)
                 (AdditionalInfoVars repo_instructions (repository_info pm) (runtime_info pm)))
         in if additional_info \<noteq> []
            then Inr (message\<lparr>content := TextContent additional_info # content message\<rparr>)
            else Inr message))"

text \<open>A caller's sequence of the three prepending methods on one message, in call order.\<close>

datatype call = EnhanceMessage | AddExamples | AddInfo

fun apply_call :: "engine \<Rightarrow> PromptManager \<Rightarrow> call \<Rightarrow> message \<Rightarrow> error + message" where
  "apply_call eng pm EnhanceMessage m = Inr (enhance_message eng pm m)"
| "apply_call eng pm AddExamples m = Inr (add_examples_to_initial_message eng pm m)"
| "apply_call eng pm AddInfo m = add_info_to_initial_message eng pm m"

fun apply_calls :: "engine \<Rightarrow> PromptManager \<Rightarrow> call list \<Rightarrow> message \<Rightarrow> error + message" where
  "apply_calls eng pm [] m = Inr m"
| "apply_calls eng pm (c # cs) m =
     (case apply_call eng pm c m of Inl e \<Rightarrow> Inl e | Inr m' \<Rightarrow> apply_calls eng pm cs m')"

section \<open>Notions of the specification\<close>

text \<open>
  A knowledge microagent is triggered by a text when its trigger matching returns a
  keyword that passes \<^verbatim>\<open>if trigger:\<close>, that is, a non-empty one.
\<close>

definition triggers_on :: "engine \<Rightarrow> microagent \<Rightarrow> string \<Rightarrow> bool" where
  "triggers_on eng a t = (case match_trigger eng a t of None \<Rightarrow> False | Some w \<Rightarrow> w \<noteq> [])"

text \<open>
  The full match list of a text, as the specification words it: every registered
  knowledge microagent is asked, in registry order, and each match contributes its
  (agent, trigger word) pair.
\<close>

definition all_matches :: "engine \<Rightarrow> string \<Rightarrow> microagent dict \<Rightarrow> (microagent \<times> string) list" where
  "all_matches eng t reg =
     concat (map (\<lambda>(key, a). case match_trigger eng a t of
                                None \<Rightarrow> []
                              | Some w \<Rightarrow> if w \<noteq> [] then [(a, w)] else []) reg)"

text \<open>
  What one call puts in front of a message: the blocks by which the content grew. The
  blocks of a sequence of calls are listed in call order; each call sees the message as
  the calls before it left it.
\<close>

definition injected_by :: "engine \<Rightarrow> PromptManager \<Rightarrow> call \<Rightarrow> message \<Rightarrow> content list" where
  "injected_by eng pm c m =
     (case apply_call eng pm c m of
        Inl e \<Rightarrow> []
      | Inr m' \<Rightarrow> take (length (content m') - length (content m)) (content m'))"

fun injected_blocks :: "engine \<Rightarrow> PromptManager \<Rightarrow> call list \<Rightarrow> message \<Rightarrow> content list" where
  "injected_blocks eng pm [] m = []"
| "injected_blocks eng pm (c # cs) m =
     (case apply_call eng pm c m of
        Inl e \<Rightarrow> []
      | Inr m' \<Rightarrow> injected_by eng pm c m @ injected_blocks eng pm cs m')"

text \<open>No name of the disable-list is a key of either registry.\<close>

definition no_disabled_registered :: "PromptManager \<Rightarrow> bool" where
  "no_disabled_registered pm =
     (\<forall>key \<in> fst ` set (knowledge_microagents pm) \<union> fst ` set (repo_microagents pm).
        key \<notin> set (disabled_microagents pm))"

text \<open>The four template names the constructor loads, each from \<^verbatim>\<open><name>.j2\<close>.\<close>

definition template_names :: "string list" where
  "template_names = [''system_prompt'', ''user_prompt'', ''additional_info'', ''microagent_info'']"

section \<open>A concrete instance of the collaborators\<close>

text \<open>
  The theorems below hold for every template engine, loader and trigger matching. To run
  the model on concrete inputs, this section fixes one instance of each.
\<close>

fun startswith :: "string \<Rightarrow> string \<Rightarrow> bool" where
  "startswith s [] = True"
| "startswith [] (c # w) = False"
| "startswith (x # s) (c # w) = (x = c \<and> startswith s w)"

fun contains_str :: "string \<Rightarrow> string \<Rightarrow> bool" where
  "contains_str [] w = (w = [])"
| "contains_str (x # s) w = (startswith (x # s) w \<or> contains_str s w)"

text \<open>
  Modelled from the spec: the trigger matching of a knowledge microagent (the class
  \<^verbatim>\<open>KnowledgeMicroAgent\<close> is not part of this module): given a text, the matched trigger
  keyword or none. Here a keyword matches when the text contains it, and the first
  matching keyword of the agent is returned.
\<close>

definition keyword_match :: "microagent \<Rightarrow> string \<Rightarrow> string option" where
  "keyword_match a t = find (contains_str t) (triggers a)"

text \<open>A template engine that prints the template text followed by its variables.\<close>

definition demo_render :: "template \<Rightarrow> render_args \<Rightarrow> string" where
  "demo_render tpl args =
     tpl @ (case args of
              NoVars \<Rightarrow> []
            | AdditionalInfoVars repo_instructions rinfo rt \<Rightarrow> repo_instructions
            | TriggeredAgentsVars ts \<Rightarrow> concat (map (\<lambda>(a, w). '' '' @ name a @ ''/'' @ w) ts))"

definition demo_agent :: "string \<Rightarrow> agent_kind \<Rightarrow> string list \<Rightarrow> microagent" where
  "demo_agent n k ts = \<lparr>name = n, agent_content = ''about '' @ n, kind = k, triggers = ts\<rparr>"

definition demo_loader ::
  "string \<Rightarrow> error + (microagent dict \<times> microagent dict \<times> microagent dict)" where
  "demo_loader d =
     (if d = ''microagents''
      then Inr ([(''repo'', demo_agent ''repo'' RepoMicroAgent [])],
                [(''github'', demo_agent ''github'' KnowledgeMicroAgent [''github'', ''git'']),
                 (''docker'', demo_agent ''docker'' KnowledgeMicroAgent [''docker'']),
                 (''npm'', demo_agent ''npm'' KnowledgeMicroAgent [''npm''])],
                [])
      else Inl (LoaderError d))"

definition demo_engine :: engine where
  "demo_engine =
     \<lparr>render = demo_render, load_microagents_from_dir = demo_loader,
      match_trigger = keyword_match\<rparr>"

definition demo_fs :: filesystem where
  "demo_fs =
     map_of [(''prompts/system_prompt.j2'', File '' SYSTEM  ''),
             (''prompts/user_prompt.j2'', File ''EXAMPLE''),
             (''prompts/additional_info.j2'', File ''INFO: ''),
             (''prompts/microagent_info.j2'', File ''TRIGGERED:'')]"

text \<open>
  The manager that \<^verbatim>\<open>PromptManager('prompts', 'microagents', ['docker'])\<close> constructs in
  this instance.
\<close>

definition demo_pm :: PromptManager where
  "demo_pm =
     \<lparr>disabled_microagents = [''docker''],
      prompt_dir = Some ''prompts'',
      repository_info = None,
      system_template = '' SYSTEM  '',
      user_template = ''EXAMPLE'',
      additional_info_template = ''INFO: '',
      microagent_info_template = ''TRIGGERED:'',
      runtime_info = \<lparr>available_hosts = []\<rparr>,
      knowledge_microagents =
        [(''github'', demo_agent ''github'' KnowledgeMicroAgent [''github'', ''git'']),
         (''npm'', demo_agent ''npm'' KnowledgeMicroAgent [''npm''])],
      repo_microagents = [(''repo'', demo_agent ''repo'' RepoMicroAgent [])]\<rparr>"

section \<open>The turns-left reminder\<close>

lemma user_text_messages_none:
  "\<forall>m \<in> set messages. \<not> is_user_text_message m \<Longrightarrow> user_text_messages messages = []"
  by (auto simp: user_text_messages_def filter_empty_conv in_set_enumerate_eq)

lemma user_text_messages_split:
  assumes "is_user_text_message m" and "\<forall>x \<in> set post. \<not> is_user_text_message x"
  shows "user_text_messages (pre @ m # post) = (length pre, m) # user_text_messages pre"
proof -
  have "filter (\<lambda>(i, m). is_user_text_message m) (rev (enumerate (Suc (length pre)) post)) = []"
    using assms(2) by (auto simp: filter_empty_conv in_set_enumerate_eq)
  then show ?thesis
    using assms(1) by (simp add: user_text_messages_def enumerate_append_eq)
qed

lemma add_turns_left_reminder_none:
  "\<forall>m \<in> set messages. \<not> is_user_text_message m \<Longrightarrow>
     add_turns_left_reminder messages st = messages"
  by (simp add: add_turns_left_reminder_def user_text_messages_none islice_def next_or_None_def)

lemma add_turns_left_reminder_split:
  assumes "is_user_text_message m" and "\<forall>x \<in> set post. \<not> is_user_text_message x"
  shows "add_turns_left_reminder (pre @ m # post) st =
           pre @ m\<lparr>content := content m @ [TextContent (reminder_text st)]\<rparr> # post"
  using assms
  by (simp add: add_turns_left_reminder_def user_text_messages_split islice_def next_or_None_def)

lemma str_int_nonpos:
  "i \<le> 0 \<Longrightarrow> str_int i = (if i = 0 then ''0'' else CHR ''-'' # str_nat (nat (- i)))"
  by (simp add: str_int_def str_nat.simps digit_char_def)

text \<open>
  Claim C1, as the specification states it: the scan skips the most recent message and the
  reminder goes to the second-most-recent user message with a text block; for
  \<open>[user a, assistant b, user c]\<close> with \<open>max_iterations = 10\<close> and \<open>iteration = 3\<close> the
  reminder would be appended to \<open>a\<close>. The code does not do that: \<^verbatim>\<open>islice(it, 1)\<close> keeps
  the first item of the reversed scan, so on this very input the reminder (7 turns left)
  is appended to the latest user message \<open>c\<close>, and \<open>a\<close> is left as it was.
\<close>

theorem add_turns_left_reminder_skip_counterexample:
  "add_turns_left_reminder
     [\<lparr>role = User, content = [TextContent ''a'']\<rparr>,
      \<lparr>role = Assistant, content = [TextContent ''b'']\<rparr>,
      \<lparr>role = User, content = [TextContent ''c'']\<rparr>]
     \<lparr>max_iterations = 10, iteration = 3\<rparr> =
     [\<lparr>role = User, content = [TextContent ''a'']\<rparr>,
      \<lparr>role = Assistant, content = [TextContent ''b'']\<rparr>,
      \<lparr>role = User, content = [TextContent ''c'', TextContent
         ([CHR 0x0A, CHR 0x0A] @ ''ENVIRONMENT REMINDER: You have 7 turns left to complete the task. When finished reply with <finish></finish>.'')]\<rparr>] \<and>
   add_turns_left_reminder
     [\<lparr>role = User, content = [TextContent ''a'']\<rparr>,
      \<lparr>role = Assistant, content = [TextContent ''b'']\<rparr>,
      \<lparr>role = User, content = [TextContent ''c'']\<rparr>]
     \<lparr>max_iterations = 10, iteration = 3\<rparr> \<noteq>
     [\<lparr>role = User, content = [TextContent ''a'', TextContent
         ([CHR 0x0A, CHR 0x0A] @ ''ENVIRONMENT REMINDER: You have 7 turns left to complete the task. When finished reply with <finish></finish>.'')]\<rparr>,
      \<lparr>role = Assistant, content = [TextContent ''b'']\<rparr>,
      \<lparr>role = User, content = [TextContent ''c'']\<rparr>]"
  by code_simp

text \<open>
  Claim C1, amended: \<^verbatim>\<open>add_turns_left_reminder\<close> scans the message list from the end and
  skips nothing; it appends the reminder block to the end of the content of the most
  recent user-role message that contains at least one text block (every message after it
  is left alone, as is every message before it), and it changes nothing when no message
  is a user message with a text block.
\<close>

theorem add_turns_left_reminder_latest:
  "(is_user_text_message m \<and> (\<forall>x \<in> set post. \<not> is_user_text_message x) \<longrightarrow>
      add_turns_left_reminder (pre @ m # post) st =
        pre @ m\<lparr>content := content m @ [TextContent (reminder_text st)]\<rparr> # post) \<and>
   ((\<forall>x \<in> set messages. \<not> is_user_text_message x) \<longrightarrow>
      add_turns_left_reminder messages st = messages)"
  by (simp add: add_turns_left_reminder_split add_turns_left_reminder_none)

theorem add_turns_left_reminder_latest_witness:
  "add_turns_left_reminder
     [\<lparr>role = User, content = [TextContent ''a'']\<rparr>,
      \<lparr>role = Assistant, content = [TextContent ''b'']\<rparr>,
      \<lparr>role = User, content = [ImageContent [''u''], TextContent ''c'']\<rparr>,
      \<lparr>role = User, content = [ImageContent [''v'']]\<rparr>]
     \<lparr>max_iterations = 10, iteration = 3\<rparr> =
     [\<lparr>role = User, content = [TextContent ''a'']\<rparr>,
      \<lparr>role = Assistant, content = [TextContent ''b'']\<rparr>,
      \<lparr>role = User, content = [ImageContent [''u''], TextContent ''c'',
         TextContent (reminder_text \<lparr>max_iterations = 10, iteration = 3\<rparr>)]\<rparr>,
      \<lparr>role = User, content = [ImageContent [''v'']]\<rparr>] \<and>
   add_turns_left_reminder
     [\<lparr>role = Assistant, content = [TextContent ''b'']\<rparr>,
      \<lparr>role = User, content = []\<rparr>]
     \<lparr>max_iterations = 10, iteration = 3\<rparr> =
     [\<lparr>role = Assistant, content = [TextContent ''b'']\<rparr>,
      \<lparr>role = User, content = []\<rparr>]"
  using add_turns_left_reminder_latest
    [of "\<lparr>role = User, content = [ImageContent [''u''], TextContent ''c'']\<rparr>"
        "[\<lparr>role = User, content = [ImageContent [''v'']]\<rparr>]"
        "[\<lparr>role = User, content = [TextContent ''a'']\<rparr>,
          \<lparr>role = Assistant, content = [TextContent ''b'']\<rparr>]"
        "\<lparr>max_iterations = 10, iteration = 3\<rparr>"
        "[\<lparr>role = Assistant, content = [TextContent ''b'']\<rparr>,
          \<lparr>role = User, content = []\<rparr>]"]
  by (simp add: is_user_text_message_def)

text \<open>
  Claim C10: the remaining-turn count is \<open>max_iterations - iteration\<close> with no lower bound.
  When \<open>iteration \<ge> max_iterations\<close> the reminder is still appended to the latest user
  message with a text block, and the number it states is \<open>0\<close> or carries a minus sign.
\<close>

theorem add_turns_left_reminder_no_lower_bound:
  assumes "is_user_text_message m" and "\<forall>x \<in> set post. \<not> is_user_text_message x"
    and "max_iterations st \<le> iteration st"
  shows "add_turns_left_reminder (pre @ m # post) st =
           pre @ m\<lparr>content := content m @
             [TextContent ([CHR 0x0A, CHR 0x0A] @ ''ENVIRONMENT REMINDER: You have '' @
                (if iteration st = max_iterations st then ''0''
                 else CHR ''-'' # str_nat (nat (iteration st - max_iterations st))) @
                '' turns left to complete the task. When finished reply with <finish></finish>.'')]\<rparr> # post"
proof -
  have "str_int (max_iterations st - iteration st) =
          (if iteration st = max_iterations st then ''0''
           else CHR ''-'' # str_nat (nat (iteration st - max_iterations st)))"
    using assms(3) str_int_nonpos[of "max_iterations st - iteration st"] by auto
  then show ?thesis
    using add_turns_left_reminder_split[OF assms(1,2)] by (simp add: reminder_text_def)
qed

theorem add_turns_left_reminder_no_lower_bound_witness:
  "add_turns_left_reminder
     [\<lparr>role = User, content = [TextContent ''a'']\<rparr>,
      \<lparr>role = Assistant, content = [TextContent ''b'']\<rparr>]
     \<lparr>max_iterations = 10, iteration = 12\<rparr> =
     [\<lparr>role = User, content = [TextContent ''a'', TextContent
         ([CHR 0x0A, CHR 0x0A] @ ''ENVIRONMENT REMINDER: You have -2 turns left to complete the task. When finished reply with <finish></finish>.'')]\<rparr>,
      \<lparr>role = Assistant, content = [TextContent ''b'']\<rparr>]"
  using add_turns_left_reminder_no_lower_bound
    [of "\<lparr>role = User, content = [TextContent ''a'']\<rparr>"
        "[\<lparr>role = Assistant, content = [TextContent ''b'']\<rparr>]"
        "\<lparr>max_iterations = 10, iteration = 12\<rparr>" "[]"]
  by (simp add: is_user_text_message_def str_nat.simps digit_char_def)

section \<open>Running the concrete instance\<close>

lemmas demo_defs =
  demo_engine_def demo_pm_def demo_agent_def demo_render_def demo_loader_def demo_fs_def
  keyword_match_def

lemmas strip_defs = strip_def lstrip_def rstrip_def isspace_def

lemma demo_init:
  "PromptManager_init demo_engine demo_fs (Some ''prompts'') (Some ''microagents'')
     (Some [''docker'']) = Inr demo_pm"
  by (simp add: PromptManager_init_def load_template_def path_join_def load_from_dir_def
        demo_defs)


section \<open>Trigger matching in \<^verbatim>\<open>enhance_message\<close>\<close>

lemma collect_triggered_eq:
  "collect_triggered eng t reg acc = acc @ all_matches eng t reg"
  by (induction reg arbitrary: acc)
     (auto simp: all_matches_def triggers_on_def split: option.splits)

lemma all_matches_empty_iff:
  "all_matches eng t reg = [] \<longleftrightarrow> (\<forall>(key, a) \<in> set reg. \<not> triggers_on eng a t)"
  by (induction reg) (auto simp: all_matches_def triggers_on_def split: option.splits if_splits)

lemma first_text_skip:
  "\<not> list_ex is_TextContent xs \<Longrightarrow> first_text (xs @ ys) = first_text ys"
  by (induction xs rule: first_text.induct) auto

lemma first_text_no_text:
  "\<not> list_ex is_TextContent xs \<Longrightarrow> first_text xs = []"
  by (induction xs rule: first_text.induct) auto

lemma first_text_rev_last:
  "\<not> list_ex is_TextContent post \<Longrightarrow> first_text (rev (pre @ TextContent t # post)) = t"
  using first_text_skip[of "rev post" "TextContent t # rev pre"]
  by (simp add: list_ex_iff)

lemma enhance_message_eq:
  "enhance_message eng pm m =
     (let t = first_text (rev (content m)); ms = all_matches eng t (knowledge_microagents pm)
      in if t = [] \<or> ms = [] then m
         else m\<lparr>content := TextContent (build_microagent_info eng pm ms) # content m\<rparr>)"
  by (auto simp: enhance_message_def Let_def collect_triggered_eq)

text \<open>
  Claim C3: when the last text block of a message contains a trigger keyword of at least
  one registered knowledge microagent (the block's text \<open>t\<close> is therefore not empty, and
  the trigger matching of some registered agent \<open>a\<close> returns a keyword on it),
  \<^verbatim>\<open>enhance_message\<close> asks every registered knowledge microagent, in registry order and
  without stopping at the first match, and prepends exactly one new text block at index 0:
  the trimmed render of the microagent-info template over the full match list.
\<close>

theorem enhance_message_prepends_all_matches:
  assumes "content m = pre @ TextContent t # post" and "\<not> list_ex is_TextContent post"
    and "t \<noteq> []"
    and "(key, a) \<in> set (knowledge_microagents pm)" and "triggers_on eng a t"
  shows "enhance_message eng pm m =
           m\<lparr>content := TextContent
                (strip (render eng (microagent_info_template pm)
                   (TriggeredAgentsVars (all_matches eng t (knowledge_microagents pm)))))
              # content m\<rparr>"
proof -
  have "first_text (rev (content m)) = t"
    using assms(1,2) by (simp add: first_text_rev_last del: rev.simps rev_append)
  moreover have "all_matches eng t (knowledge_microagents pm) \<noteq> []"
    using assms(4,5) by (auto simp: all_matches_empty_iff)
  ultimately show ?thesis
    using assms(3) by (simp add: enhance_message_eq build_microagent_info_def)
qed

theorem enhance_message_prepends_all_matches_witness:
  "enhance_message demo_engine demo_pm
     \<lparr>role = User, content = [TextContent ''docker'', ImageContent [''u''],
        TextContent ''push to github via npm'', ImageContent [''v'']]\<rparr> =
   \<lparr>role = User, content = [TextContent ''TRIGGERED: github/github npm/npm'',
        TextContent ''docker'', ImageContent [''u''],
        TextContent ''push to github via npm'', ImageContent [''v'']]\<rparr>"
  using enhance_message_prepends_all_matches
    [where m = "\<lparr>role = User, content = [TextContent ''docker'', ImageContent [''u''],
        TextContent ''push to github via npm'', ImageContent [''v'']]\<rparr>"
       and pre = "[TextContent ''docker'', ImageContent [''u'']]"
       and t = "''push to github via npm''"
       and post = "[ImageContent [''v'']]"
       and key = "''npm''"
       and a = "demo_agent ''npm'' KnowledgeMicroAgent [''npm'']"
       and pm = demo_pm and eng = demo_engine]
  by (simp add: demo_defs triggers_on_def all_matches_def strip_defs)

text \<open>
  Claim C4: \<^verbatim>\<open>enhance_message\<close> leaves the message as it is (same content, same blocks)
  when the content list is empty, when the content holds no text block, and when no
  registered knowledge microagent is triggered by the last text block.
\<close>

theorem enhance_message_noop:
  "(content m = [] \<longrightarrow> enhance_message eng pm m = m) \<and>
   (\<not> list_ex is_TextContent (content m) \<longrightarrow> enhance_message eng pm m = m) \<and>
   (content m = pre @ TextContent t # post \<and> \<not> list_ex is_TextContent post \<and>
      (\<forall>(key, a) \<in> set (knowledge_microagents pm). \<not> triggers_on eng a t) \<longrightarrow>
    enhance_message eng pm m = m)"
proof (intro conjI impI)
  assume "content m = []"
  then show "enhance_message eng pm m = m" by (simp add: enhance_message_def)
next
  assume "\<not> list_ex is_TextContent (content m)"
  then have "first_text (rev (content m)) = []"
    by (intro first_text_no_text) (simp add: list_ex_iff)
  then show "enhance_message eng pm m = m" by (simp add: enhance_message_eq)
next
  assume h: "content m = pre @ TextContent t # post \<and> \<not> list_ex is_TextContent post \<and>
      (\<forall>(key, a) \<in> set (knowledge_microagents pm). \<not> triggers_on eng a t)"
  then have "first_text (rev (content m)) = t"
    by (simp add: first_text_rev_last del: rev.simps rev_append)
  moreover have "all_matches eng t (knowledge_microagents pm) = []"
    using h by (simp add: all_matches_empty_iff)
  ultimately show "enhance_message eng pm m = m" by (simp add: enhance_message_eq)
qed

theorem enhance_message_noop_witness:
  "enhance_message demo_engine demo_pm \<lparr>role = User, content = []\<rparr> =
     \<lparr>role = User, content = []\<rparr> \<and>
   enhance_message demo_engine demo_pm \<lparr>role = User, content = [ImageContent [''github'']]\<rparr> =
     \<lparr>role = User, content = [ImageContent [''github'']]\<rparr> \<and>
   enhance_message demo_engine demo_pm
     \<lparr>role = User, content = [TextContent ''push to github'', TextContent ''hello world'']\<rparr> =
     \<lparr>role = User, content = [TextContent ''push to github'', TextContent ''hello world'']\<rparr>"
  using enhance_message_noop
    [where m = "\<lparr>role = User, content = []\<rparr>" and eng = demo_engine and pm = demo_pm]
    enhance_message_noop
    [where m = "\<lparr>role = User, content = [ImageContent [''github'']]\<rparr>"
       and eng = demo_engine and pm = demo_pm]
    enhance_message_noop
    [where m = "\<lparr>role = User,
                  content = [TextContent ''push to github'', TextContent ''hello world'']\<rparr>"
       and pre = "[TextContent ''push to github'']" and t = "''hello world''" and post = "[]"
       and eng = demo_engine and pm = demo_pm]
  by (simp add: demo_defs triggers_on_def)

text \<open>
  Claim C9: triggers are matched against the last text block only. When the text of the
  last text block is the empty string, \<^verbatim>\<open>enhance_message\<close> changes nothing, whatever the
  earlier blocks \<open>pre\<close> contain and whatever the registry and the trigger matching are.
\<close>

theorem enhance_message_empty_last_text:
  assumes "content m = pre @ TextContent [] # post" and "\<not> list_ex is_TextContent post"
  shows "enhance_message eng pm m = m"
proof -
  have "first_text (rev (content m)) = []"
    using assms by (simp add: first_text_rev_last del: rev.simps rev_append)
  then show ?thesis by (simp add: enhance_message_eq)
qed

theorem enhance_message_empty_last_text_witness:
  "triggers_on demo_engine (demo_agent ''github'' KnowledgeMicroAgent [''github'', ''git''])
     ''push to github'' \<and>
   enhance_message demo_engine demo_pm
     \<lparr>role = User, content = [TextContent ''push to github'', TextContent [],
        ImageContent [''v'']]\<rparr> =
     \<lparr>role = User, content = [TextContent ''push to github'', TextContent [],
        ImageContent [''v'']]\<rparr>"
  using enhance_message_empty_last_text
    [where m = "\<lparr>role = User, content = [TextContent ''push to github'', TextContent [],
        ImageContent [''v'']]\<rparr>"
       and pre = "[TextContent ''push to github'']" and post = "[ImageContent [''v'']]"
       and eng = demo_engine and pm = demo_pm]
  by (simp add: demo_defs triggers_on_def)


section \<open>The registries and the disable-list\<close>

lemma dict_set_key:
  "k' \<in> fst ` set (dict_set d k v) \<longleftrightarrow> k' = k \<or> k' \<in> fst ` set d"
  by (induction d k v rule: dict_set.induct) auto

lemma register_items_key:
  "k \<in> fst ` set (register_items dis reg items) \<Longrightarrow> k \<in> fst ` set reg \<or> k \<notin> set dis"
proof (induction dis reg items rule: register_items.induct)
  case (1 disabled reg)
  then show ?case by simp
next
  case (2 disabled reg key microagent items)
  show ?case
  proof (cases "key \<in> set disabled")
    case True
    with 2 show ?thesis by simp
  next
    case False
    with 2 have "k \<in> fst ` set (dict_set reg key microagent) \<or> k \<notin> set disabled" by simp
    with False show ?thesis unfolding dict_set_key by blast
  qed
qed

lemma load_from_dir_Inr:
  assumes "load_from_dir eng pm d = Inr pm'"
  shows "\<exists>repo_ms knowledge_ms.
           pm' = pm\<lparr>knowledge_microagents :=
                   register_items (disabled_microagents pm) (knowledge_microagents pm) knowledge_ms,
                 repo_microagents :=
                   register_items (disabled_microagents pm) (repo_microagents pm) repo_ms\<rparr>"
proof (cases "load_microagents_from_dir eng d")
  case (Inl e)
  with assms show ?thesis by (simp add: load_from_dir_def)
next
  case (Inr r)
  obtain repo_ms knowledge_ms other_ms where r: "r = (repo_ms, knowledge_ms, other_ms)"
    by (cases r) auto
  from assms Inr r show ?thesis
    by (simp add: load_from_dir_def Let_def split: if_splits) blast
qed

lemma load_from_dir_no_disabled:
  assumes "load_from_dir eng pm d = Inr pm'" and "no_disabled_registered pm"
  shows "no_disabled_registered pm'"
proof -
  from load_from_dir_Inr[OF assms(1)] obtain repo_ms knowledge_ms where
    pm': "pm' = pm\<lparr>knowledge_microagents :=
                 register_items (disabled_microagents pm) (knowledge_microagents pm) knowledge_ms,
               repo_microagents :=
                 register_items (disabled_microagents pm) (repo_microagents pm) repo_ms\<rparr>"
    by blast
  show ?thesis
    unfolding no_disabled_registered_def
  proof
    fix key
    assume "key \<in> fst ` set (knowledge_microagents pm') \<union> fst ` set (repo_microagents pm')"
    then have "key \<in> fst ` set (register_items (disabled_microagents pm)
                                   (knowledge_microagents pm) knowledge_ms) \<or>
               key \<in> fst ` set (register_items (disabled_microagents pm)
                                   (repo_microagents pm) repo_ms)"
      by (simp add: pm')
    then have "key \<in> fst ` set (knowledge_microagents pm) \<union> fst ` set (repo_microagents pm) \<or>
               key \<notin> set (disabled_microagents pm)"
      using register_items_key by blast
    with assms(2) show "key \<notin> set (disabled_microagents pm')"
      by (auto simp: no_disabled_registered_def pm')
  qed
qed

lemma init_Inr:
  assumes "PromptManager_init eng fs pdir mdir disabled = Inr pm"
  shows "\<exists>pm0.
           load_template fs pdir ''system_prompt'' = Inr (system_template pm0) \<and>
           load_template fs pdir ''user_prompt'' = Inr (user_template pm0) \<and>
           load_template fs pdir ''additional_info'' = Inr (additional_info_template pm0) \<and>
           load_template fs pdir ''microagent_info'' = Inr (microagent_info_template pm0) \<and>
           knowledge_microagents pm0 = [] \<and> repo_microagents pm0 = [] \<and>
           (pm = pm0 \<or> (\<exists>d. load_from_dir eng pm0 d = Inr pm))"
proof (cases "load_template fs pdir ''system_prompt''")
  case (Inl e)
  with assms show ?thesis by (simp add: PromptManager_init_def)
next
  case st: (Inr st)
  show ?thesis
  proof (cases "load_template fs pdir ''user_prompt''")
    case (Inl e)
    with assms st show ?thesis by (simp add: PromptManager_init_def)
  next
    case ut: (Inr ut)
    show ?thesis
    proof (cases "load_template fs pdir ''additional_info''")
      case (Inl e)
      with assms st ut show ?thesis by (simp add: PromptManager_init_def)
    next
      case ait: (Inr ait)
      show ?thesis
      proof (cases "load_template fs pdir ''microagent_info''")
        case (Inl e)
        with assms st ut ait show ?thesis by (simp add: PromptManager_init_def)
      next
        case mit: (Inr mit)
        define pm0 where
          "pm0 = \<lparr>disabled_microagents = (case disabled of None \<Rightarrow> [] | Some l \<Rightarrow> l),
                   prompt_dir = pdir,
                   repository_info = None,
                   system_template = st,
                   user_template = ut,
                   additional_info_template = ait,
                   microagent_info_template = mit,
                   runtime_info = \<lparr>available_hosts = []\<rparr>,
                   knowledge_microagents = [],
                   repo_microagents = []\<rparr>"
        have "pm = pm0 \<or> (\<exists>d. load_from_dir eng pm0 d = Inr pm)"
          using assms unfolding PromptManager_init_def st ut ait mit pm0_def
          by (cases mdir) (auto simp: Let_def split: if_splits)
        moreover have "system_template pm0 = st" "user_template pm0 = ut"
          "additional_info_template pm0 = ait" "microagent_info_template pm0 = mit"
          "knowledge_microagents pm0 = []" "repo_microagents pm0 = []"
          by (simp_all add: pm0_def)
        ultimately show ?thesis
          using st ut ait mit by (intro exI[of _ pm0]) simp
      qed
    qed
  qed
qed

lemma init_no_disabled:
  assumes "PromptManager_init eng fs pdir mdir disabled = Inr pm"
  shows "no_disabled_registered pm"
proof -
  from init_Inr[OF assms] obtain pm0 where
    e: "knowledge_microagents pm0 = []" "repo_microagents pm0 = []"
    and pm: "pm = pm0 \<or> (\<exists>d. load_from_dir eng pm0 d = Inr pm)"
    by blast
  from e have "no_disabled_registered pm0"
    by (simp add: no_disabled_registered_def)
  with pm show ?thesis
    using load_from_dir_no_disabled by blast
qed

lemma load_microagents_disabled:
  "disabled_microagents (load_microagents pm ms) = disabled_microagents pm"
  by (induction pm ms rule: load_microagents.induct) auto

lemma load_microagents_key:
  "k \<in> fst ` set (knowledge_microagents (load_microagents pm ms)) \<union>
        fst ` set (repo_microagents (load_microagents pm ms)) \<Longrightarrow>
   k \<in> fst ` set (knowledge_microagents pm) \<union> fst ` set (repo_microagents pm) \<or>
   k \<notin> set (disabled_microagents pm)"
proof (induction ms arbitrary: pm)
  case Nil
  then show ?case by simp
next
  case (Cons a ms)
  consider (skip) "load_microagents pm (a # ms) = load_microagents pm ms"
    | (knowledge) "name a \<notin> set (disabled_microagents pm)"
        "load_microagents pm (a # ms) =
           load_microagents (pm\<lparr>knowledge_microagents :=
             dict_set (knowledge_microagents pm) (name a) a\<rparr>) ms"
    | (repo) "name a \<notin> set (disabled_microagents pm)"
        "load_microagents pm (a # ms) =
           load_microagents (pm\<lparr>repo_microagents :=
             dict_set (repo_microagents pm) (name a) a\<rparr>) ms"
    by (cases "name a \<in> set (disabled_microagents pm)"; cases "kind a") simp_all
  then show ?case
  proof cases
    case skip
    with Cons.prems Cons.IH[of pm] show ?thesis by simp
  next
    case knowledge
    define pm' where
      "pm' = pm\<lparr>knowledge_microagents := dict_set (knowledge_microagents pm) (name a) a\<rparr>"
    from Cons.prems have
      "k \<in> fst ` set (knowledge_microagents (load_microagents pm' ms)) \<union>
            fst ` set (repo_microagents (load_microagents pm' ms))"
      by (simp only: knowledge(2) pm'_def)
    then have "k \<in> fst ` set (knowledge_microagents pm') \<union> fst ` set (repo_microagents pm') \<or>
               k \<notin> set (disabled_microagents pm')"
      by (rule Cons.IH)
    then have "k = name a \<or> k \<in> fst ` set (knowledge_microagents pm) \<or>
               k \<in> fst ` set (repo_microagents pm) \<or> k \<notin> set (disabled_microagents pm)"
      by (simp add: pm'_def dict_set_key)
    with knowledge(1) show ?thesis by (elim disjE) simp_all
  next
    case repo
    define pm' where
      "pm' = pm\<lparr>repo_microagents := dict_set (repo_microagents pm) (name a) a\<rparr>"
    from Cons.prems have
      "k \<in> fst ` set (knowledge_microagents (load_microagents pm' ms)) \<union>
            fst ` set (repo_microagents (load_microagents pm' ms))"
      by (simp only: repo(2) pm'_def)
    then have "k \<in> fst ` set (knowledge_microagents pm') \<union> fst ` set (repo_microagents pm') \<or>
               k \<notin> set (disabled_microagents pm')"
      by (rule Cons.IH)
    then have "k = name a \<or> k \<in> fst ` set (knowledge_microagents pm) \<or>
               k \<in> fst ` set (repo_microagents pm) \<or> k \<notin> set (disabled_microagents pm)"
      by (simp add: pm'_def dict_set_key) blast
    with repo(1) show ?thesis by (elim disjE) simp_all
  qed
qed

lemma load_microagents_no_disabled:
  assumes "no_disabled_registered pm"
  shows "no_disabled_registered (load_microagents pm ms)"
  unfolding no_disabled_registered_def
proof
  fix key
  assume "key \<in> fst ` set (knowledge_microagents (load_microagents pm ms)) \<union>
                fst ` set (repo_microagents (load_microagents pm ms))"
  from load_microagents_key[OF this] assms
  show "key \<notin> set (disabled_microagents (load_microagents pm ms))"
    by (auto simp: no_disabled_registered_def load_microagents_disabled)
qed

lemma load_microagents_append:
  "load_microagents pm (xs @ ys) = load_microagents (load_microagents pm xs) ys"
  by (induction pm xs rule: load_microagents.induct) auto

lemma load_microagents_skip:
  assumes "name a \<in> set (disabled_microagents pm) \<or> kind a = OtherMicroAgent"
  shows "load_microagents pm (before @ a # after) = load_microagents pm (before @ after)"
  using assms
  by (auto simp: load_microagents_append load_microagents_disabled)

text \<open>
  Claim C5: no name of the disable-list is ever a key of the knowledge or of the repo
  registry: the constructor establishes this, \<^verbatim>\<open>load_microagents\<close> preserves it and never
  changes the disable-list. \<^verbatim>\<open>load_microagents\<close> cannot fail, and an entity whose name is
  disabled, or that is neither a knowledge nor a repo microagent, is dropped: the call
  behaves as if the entity had not been in the list.
\<close>

theorem disabled_never_registered:
  "(PromptManager_init eng fs pdir mdir disabled = Inr pm0 \<longrightarrow> no_disabled_registered pm0) \<and>
   (no_disabled_registered pm \<longrightarrow> no_disabled_registered (load_microagents pm microagents)) \<and>
   disabled_microagents (load_microagents pm microagents) = disabled_microagents pm \<and>
   (name a \<in> set (disabled_microagents pm) \<or> kind a = OtherMicroAgent \<longrightarrow>
      load_microagents pm (before @ a # after) = load_microagents pm (before @ after))"
  using init_no_disabled load_microagents_no_disabled load_microagents_disabled
    load_microagents_skip by blast

theorem disabled_never_registered_witness:
  "PromptManager_init demo_engine demo_fs (Some ''prompts'') (Some ''microagents'')
     (Some [''docker'']) = Inr demo_pm \<and>
   no_disabled_registered demo_pm \<and>
   no_disabled_registered
     (load_microagents demo_pm
        [demo_agent ''docker'' KnowledgeMicroAgent [''docker''],
         demo_agent ''task'' OtherMicroAgent [],
         demo_agent ''pip'' KnowledgeMicroAgent [''pip'']]) \<and>
   load_microagents demo_pm
     [demo_agent ''docker'' KnowledgeMicroAgent [''docker''],
      demo_agent ''pip'' KnowledgeMicroAgent [''pip'']] =
   load_microagents demo_pm [demo_agent ''pip'' KnowledgeMicroAgent [''pip'']] \<and>
   load_microagents demo_pm
     [demo_agent ''task'' OtherMicroAgent [],
      demo_agent ''pip'' KnowledgeMicroAgent [''pip'']] =
   load_microagents demo_pm [demo_agent ''pip'' KnowledgeMicroAgent [''pip'']]"
  using disabled_never_registered
    [where eng = demo_engine and fs = demo_fs and pdir = "Some ''prompts''"
       and mdir = "Some ''microagents''" and disabled = "Some [''docker'']"
       and ?pm0.0 = demo_pm and pm = demo_pm
       and microagents = "[demo_agent ''docker'' KnowledgeMicroAgent [''docker''],
         demo_agent ''task'' OtherMicroAgent [],
         demo_agent ''pip'' KnowledgeMicroAgent [''pip'']]"
       and a = "demo_agent ''docker'' KnowledgeMicroAgent [''docker'']"
       and before = "[]" and after = "[demo_agent ''pip'' KnowledgeMicroAgent [''pip'']]"]
    disabled_never_registered
    [where eng = demo_engine and fs = demo_fs and pdir = "Some ''prompts''"
       and mdir = "Some ''microagents''" and disabled = "Some [''docker'']"
       and ?pm0.0 = demo_pm and pm = demo_pm
       and microagents = "[]"
       and a = "demo_agent ''task'' OtherMicroAgent []"
       and before = "[]" and after = "[demo_agent ''pip'' KnowledgeMicroAgent [''pip'']]"]
    demo_init
  by (simp add: demo_defs)


section \<open>Construction and rendering\<close>

lemma load_template_Inr:
  "load_template fs pdir t = Inr txt \<longleftrightarrow>
     (\<exists>d. pdir = Some d \<and> fs (path_join d (t @ ''.j2'')) = Some (File txt))"
  by (auto simp: load_template_def Let_def split: option.splits fs_node.splits)

lemma load_template_unset:
  "load_template fs None t = Inl (ValueError ''Prompt directory is not set'')"
  by (simp add: load_template_def)

lemma load_template_error_kind:
  "load_template fs (Some d) t = Inl e \<Longrightarrow>
     (\<exists>p. e = FileNotFoundError p) \<or> (\<exists>p. e = IsADirectoryError p)"
  by (auto simp: load_template_def Let_def split: option.splits fs_node.splits)

lemma load_from_dir_templates:
  assumes "load_from_dir eng pm d = Inr pm'"
  shows "system_template pm' = system_template pm \<and> user_template pm' = user_template pm \<and>
         additional_info_template pm' = additional_info_template pm \<and>
         microagent_info_template pm' = microagent_info_template pm"
  using load_from_dir_Inr[OF assms] by auto

lemma init_templates:
  assumes "PromptManager_init eng fs pdir mdir disabled = Inr pm"
  shows "load_template fs pdir ''system_prompt'' = Inr (system_template pm) \<and>
         load_template fs pdir ''user_prompt'' = Inr (user_template pm) \<and>
         load_template fs pdir ''additional_info'' = Inr (additional_info_template pm) \<and>
         load_template fs pdir ''microagent_info'' = Inr (microagent_info_template pm)"
proof -
  from init_Inr[OF assms] obtain pm0 where
    t: "load_template fs pdir ''system_prompt'' = Inr (system_template pm0)"
       "load_template fs pdir ''user_prompt'' = Inr (user_template pm0)"
       "load_template fs pdir ''additional_info'' = Inr (additional_info_template pm0)"
       "load_template fs pdir ''microagent_info'' = Inr (microagent_info_template pm0)"
    and pm: "pm = pm0 \<or> (\<exists>d. load_from_dir eng pm0 d = Inr pm)"
    by blast
  from pm have "system_template pm = system_template pm0 \<and>
      user_template pm = user_template pm0 \<and>
      additional_info_template pm = additional_info_template pm0 \<and>
      microagent_info_template pm = microagent_info_template pm0"
    using load_from_dir_templates by blast
  with t show ?thesis by simp
qed

lemma init_template_error:
  assumes "load_template fs pdir t = Inl e0" and "t \<in> set template_names"
  shows "\<exists>e. PromptManager_init eng fs pdir mdir disabled = Inl e"
proof (cases "PromptManager_init eng fs pdir mdir disabled")
  case (Inl e)
  then show ?thesis by simp
next
  case (Inr pm)
  from assms(2) have "t = ''system_prompt'' \<or> t = ''user_prompt'' \<or>
      t = ''additional_info'' \<or> t = ''microagent_info''"
    by (simp add: template_names_def)
  with init_templates[OF Inr] assms(1) show ?thesis
    by (elim disjE) simp_all
qed

text \<open>
  Claim C6: the constructor raises when the prompt directory is unset (a \<^verbatim>\<open>ValueError\<close>)
  and when any of the four template files is missing from it; when it succeeds, each of
  the four templates of the manager is the contents of its file in the prompt directory,
  so no default or fallback template is ever used.
\<close>

theorem construction_fails_fast:
  "(PromptManager_init eng fs None mdir disabled =
      Inl (ValueError ''Prompt directory is not set'')) \<and>
   (t \<in> set template_names \<and> fs (path_join d (t @ ''.j2'')) = None \<longrightarrow>
      (\<exists>e. PromptManager_init eng fs (Some d) mdir disabled = Inl e)) \<and>
   (PromptManager_init eng fs pdir mdir disabled = Inr pm \<longrightarrow>
      (\<exists>d'. pdir = Some d' \<and>
         fs (path_join d' ''system_prompt.j2'') = Some (File (system_template pm)) \<and>
         fs (path_join d' ''user_prompt.j2'') = Some (File (user_template pm)) \<and>
         fs (path_join d' ''additional_info.j2'') = Some (File (additional_info_template pm)) \<and>
         fs (path_join d' ''microagent_info.j2'') = Some (File (microagent_info_template pm))))"
proof (intro conjI impI)
  show "PromptManager_init eng fs None mdir disabled =
      Inl (ValueError ''Prompt directory is not set'')"
    by (simp add: PromptManager_init_def load_template_unset)
next
  assume h: "t \<in> set template_names \<and> fs (path_join d (t @ ''.j2'')) = None"
  then have "\<exists>e0. load_template fs (Some d) t = Inl e0"
    by (simp add: load_template_def)
  with h init_template_error show "\<exists>e. PromptManager_init eng fs (Some d) mdir disabled = Inl e"
    by blast
next
  assume "PromptManager_init eng fs pdir mdir disabled = Inr pm"
  from init_templates[OF this]
  show "\<exists>d'. pdir = Some d' \<and>
         fs (path_join d' ''system_prompt.j2'') = Some (File (system_template pm)) \<and>
         fs (path_join d' ''user_prompt.j2'') = Some (File (user_template pm)) \<and>
         fs (path_join d' ''additional_info.j2'') = Some (File (additional_info_template pm)) \<and>
         fs (path_join d' ''microagent_info.j2'') = Some (File (microagent_info_template pm))"
    unfolding load_template_Inr by auto
qed

theorem construction_fails_fast_witness:
  "PromptManager_init demo_engine demo_fs None (Some ''microagents'') None =
     Inl (ValueError ''Prompt directory is not set'') \<and>
   ''user_prompt'' \<in> set template_names \<and>
   (demo_fs(''prompts/user_prompt.j2'' := None)) (path_join ''prompts'' ''user_prompt.j2'') = None \<and>
   (\<exists>e. PromptManager_init demo_engine (demo_fs(''prompts/user_prompt.j2'' := None))
          (Some ''prompts'') (Some ''microagents'') None = Inl e) \<and>
   PromptManager_init demo_engine demo_fs (Some ''prompts'') (Some ''microagents'')
     (Some [''docker'']) = Inr demo_pm \<and>
   demo_fs ''prompts/system_prompt.j2'' = Some (File (system_template demo_pm)) \<and>
   demo_fs ''prompts/user_prompt.j2'' = Some (File (user_template demo_pm)) \<and>
   demo_fs ''prompts/additional_info.j2'' = Some (File (additional_info_template demo_pm)) \<and>
   demo_fs ''prompts/microagent_info.j2'' = Some (File (microagent_info_template demo_pm))"
  using construction_fails_fast
    [where eng = demo_engine and fs = "demo_fs(''prompts/user_prompt.j2'' := None)"
       and mdir = "Some ''microagents''" and disabled = None and t = "''user_prompt''"
       and d = "''prompts''" and pdir = None]
    construction_fails_fast
    [where eng = demo_engine and fs = demo_fs
       and mdir = "Some ''microagents''" and disabled = "Some [''docker'']"
       and pdir = "Some ''prompts''" and pm = demo_pm]
    construction_fails_fast
    [where eng = demo_engine and fs = demo_fs
       and mdir = "Some ''microagents''" and disabled = None]
    demo_init
  by (simp add: template_names_def path_join_def demo_fs_def)

text \<open>
  Claim C7: for a manager constructed from a valid template directory,
  \<^verbatim>\<open>get_system_message\<close> and \<^verbatim>\<open>get_example_user_message\<close> return the trimmed render, with
  no variables, of the system and of the user template file; neither changes the manager,
  and a second call returns what the first returned.
\<close>

theorem rendered_messages_idempotent:
  assumes "PromptManager_init eng fs pdir mdir disabled = Inr pm"
  shows "\<exists>d s u.
           pdir = Some d \<and>
           fs (path_join d ''system_prompt.j2'') = Some (File s) \<and>
           fs (path_join d ''user_prompt.j2'') = Some (File u) \<and>
           get_system_message eng pm = (strip (render eng s NoVars), pm) \<and>
           get_example_user_message eng pm = (strip (render eng u NoVars), pm) \<and>
           get_system_message eng (snd (get_system_message eng pm)) =
             get_system_message eng pm \<and>
           get_example_user_message eng (snd (get_example_user_message eng pm)) =
             get_example_user_message eng pm"
proof -
  from init_templates[OF assms] obtain d where
    "pdir = Some d"
    "fs (path_join d ''system_prompt.j2'') = Some (File (system_template pm))"
    "fs (path_join d ''user_prompt.j2'') = Some (File (user_template pm))"
    unfolding load_template_Inr by auto
  then show ?thesis
    by (simp add: get_system_message_def get_example_user_message_def)
qed

theorem rendered_messages_idempotent_witness:
  "PromptManager_init demo_engine demo_fs (Some ''prompts'') (Some ''microagents'')
     (Some [''docker'']) = Inr demo_pm \<and>
   get_system_message demo_engine demo_pm = (''SYSTEM'', demo_pm) \<and>
   get_example_user_message demo_engine demo_pm = (''EXAMPLE'', demo_pm) \<and>
   get_system_message demo_engine (snd (get_system_message demo_engine demo_pm)) =
     (''SYSTEM'', demo_pm) \<and>
   get_example_user_message demo_engine (snd (get_example_user_message demo_engine demo_pm)) =
     (''EXAMPLE'', demo_pm)"
  using rendered_messages_idempotent[OF demo_init] demo_init
  by (auto simp: path_join_def demo_fs_def demo_engine_def demo_render_def strip_defs)


section \<open>Message composition\<close>

lemma enhance_message_cases:
  "enhance_message eng pm m = m \<or>
   (\<exists>t. enhance_message eng pm m = m\<lparr>content := TextContent t # content m\<rparr>)"
  by (simp add: enhance_message_eq Let_def) blast

lemma add_examples_cases:
  "add_examples_to_initial_message eng pm m = m \<or>
   (\<exists>t. add_examples_to_initial_message eng pm m = m\<lparr>content := TextContent t # content m\<rparr>)"
  by (simp add: add_examples_to_initial_message_def Let_def) blast

lemma add_info_cases:
  "add_info_to_initial_message eng pm m = Inr m' \<Longrightarrow>
   m' = m \<or> (\<exists>t. m' = m\<lparr>content := TextContent t # content m\<rparr>)"
  by (auto simp: add_info_to_initial_message_def Let_def split: if_splits)

lemma apply_call_cases:
  assumes "apply_call eng pm c m = Inr m'"
  shows "m' = m \<or> (\<exists>t. m' = m\<lparr>content := TextContent t # content m\<rparr>)"
proof (cases c)
  case EnhanceMessage
  with assms enhance_message_cases[of eng pm m] show ?thesis by auto
next
  case AddExamples
  with assms add_examples_cases[of eng pm m] show ?thesis by auto
next
  case AddInfo
  with assms add_info_cases[of eng pm m m'] show ?thesis by auto
qed

lemma apply_call_injected:
  assumes "apply_call eng pm c m = Inr m'"
  shows "content m' = injected_by eng pm c m @ content m \<and>
         length (injected_by eng pm c m) \<le> 1 \<and>
         list_all is_TextContent (injected_by eng pm c m)"
  using apply_call_cases[OF assms] assms
  by (auto simp: injected_by_def)

lemma apply_calls_injected:
  "apply_calls eng pm cs m = Inr m' \<Longrightarrow>
     content m' = rev (injected_blocks eng pm cs m) @ content m"
proof (induction cs arbitrary: m)
  case Nil
  then show ?case by simp
next
  case (Cons c cs)
  from Cons.prems obtain m1 where
    c: "apply_call eng pm c m = Inr m1" and cs: "apply_calls eng pm cs m1 = Inr m'"
    by (auto split: sum.splits)
  from apply_call_injected[OF c] have
    m1: "content m1 = injected_by eng pm c m @ content m"
    and len: "length (injected_by eng pm c m) \<le> 1" by simp_all
  from len have r: "rev (injected_by eng pm c m) = injected_by eng pm c m"
    by (cases "injected_by eng pm c m") auto
  from Cons.IH[OF cs] have "content m' = rev (injected_blocks eng pm cs m1) @ content m1" .
  with m1 r c show ?case by simp
qed

text \<open>
  Claim C8: each call of \<^verbatim>\<open>enhance_message\<close>, \<^verbatim>\<open>add_examples_to_initial_message\<close> and
  \<^verbatim>\<open>add_info_to_initial_message\<close> that returns puts at most one new block, a text block,
  at index 0 and keeps the old content behind it. After a sequence of such calls on one
  message the injected blocks stand in the reverse of call order in front of the original
  content: the last call's block is first and the original blocks stay last.
\<close>

theorem prepends_reverse_call_order:
  "(apply_call eng pm c m = Inr m1 \<longrightarrow>
      content m1 = injected_by eng pm c m @ content m \<and>
      length (injected_by eng pm c m) \<le> 1 \<and>
      list_all is_TextContent (injected_by eng pm c m)) \<and>
   (apply_calls eng pm cs m = Inr m' \<longrightarrow>
      content m' = rev (injected_blocks eng pm cs m) @ content m)"
  using apply_call_injected apply_calls_injected by blast

theorem prepends_reverse_call_order_witness:
  "apply_call demo_engine demo_pm AddInfo \<lparr>role = User, content = [TextContent ''hi'']\<rparr> =
     Inr \<lparr>role = User, content = [TextContent ''INFO: about repo'', TextContent ''hi'']\<rparr> \<and>
   injected_by demo_engine demo_pm AddInfo \<lparr>role = User, content = [TextContent ''hi'']\<rparr> =
     [TextContent ''INFO: about repo''] \<and>
   apply_calls demo_engine demo_pm [EnhanceMessage, AddExamples, AddInfo]
     \<lparr>role = User, content = [TextContent ''push to github via npm'']\<rparr> =
     Inr \<lparr>role = User, content =
       [TextContent ''INFO: about repo'', TextContent ''EXAMPLE'',
        TextContent ''TRIGGERED: github/github npm/npm'',
        TextContent ''push to github via npm'']\<rparr> \<and>
   injected_blocks demo_engine demo_pm [EnhanceMessage, AddExamples, AddInfo]
     \<lparr>role = User, content = [TextContent ''push to github via npm'']\<rparr> =
     [TextContent ''TRIGGERED: github/github npm/npm'', TextContent ''EXAMPLE'',
      TextContent ''INFO: about repo'']"
  using prepends_reverse_call_order
    [where eng = demo_engine and pm = demo_pm and c = AddInfo
       and m = "\<lparr>role = User, content = [TextContent ''hi'']\<rparr>"
       and ?m1.0 = "\<lparr>role = User, content = [TextContent ''INFO: about repo'', TextContent ''hi'']\<rparr>"
       and cs = "[]" and m' = "\<lparr>role = User, content = [TextContent ''hi'']\<rparr>"]
    prepends_reverse_call_order
    [where eng = demo_engine and pm = demo_pm and c = AddInfo
       and m = "\<lparr>role = User, content = [TextContent ''push to github via npm'']\<rparr>"
       and cs = "[EnhanceMessage, AddExamples, AddInfo]"
       and m' = "\<lparr>role = User, content =
       [TextContent ''INFO: about repo'', TextContent ''EXAMPLE'',
        TextContent ''TRIGGERED: github/github npm/npm'',
        TextContent ''push to github via npm'']\<rparr>"]
  by (simp add: demo_defs injected_by_def enhance_message_def add_examples_to_initial_message_def
        add_info_to_initial_message_def get_example_user_message_def build_microagent_info_def
        strip_defs Let_def)

text \<open>
  Claim C2: \<^verbatim>\<open>add_info_to_initial_message\<close> raises an assertion error whenever the repo
  registry holds two or more entries, and returns without an error when it holds zero or
  one.
\<close>

theorem add_info_asserts_at_most_one_repo:
  "(2 \<le> length (repo_microagents pm) \<longrightarrow>
      add_info_to_initial_message eng pm m = Inl AssertionError) \<and>
   (length (repo_microagents pm) \<le> 1 \<longrightarrow>
      (\<exists>m'. add_info_to_initial_message eng pm m = Inr m'))"
  by (simp add: add_info_to_initial_message_def Let_def)

theorem add_info_asserts_at_most_one_repo_witness:
  "2 \<le> length (repo_microagents
          (load_microagents demo_pm [demo_agent ''second'' RepoMicroAgent []])) \<and>
   add_info_to_initial_message demo_engine
     (load_microagents demo_pm [demo_agent ''second'' RepoMicroAgent []])
     \<lparr>role = User, content = [TextContent ''hi'']\<rparr> = Inl AssertionError \<and>
   length (repo_microagents demo_pm) \<le> 1 \<and>
   (\<exists>m'. add_info_to_initial_message demo_engine demo_pm
            \<lparr>role = User, content = [TextContent ''hi'']\<rparr> = Inr m')"
  using add_info_asserts_at_most_one_repo
    [where pm = "load_microagents demo_pm [demo_agent ''second'' RepoMicroAgent []]"
       and eng = demo_engine and m = "\<lparr>role = User, content = [TextContent ''hi'']\<rparr>"]
    add_info_asserts_at_most_one_repo
    [where pm = demo_pm and eng = demo_engine
       and m = "\<lparr>role = User, content = [TextContent ''hi'']\<rparr>"]
  by (simp add: demo_defs)


end
